theory Spec2Isabelle
  imports Complex_Main
begin

section \<open>Python values, exceptions and observable events\<close>

text \<open>
  The program is \<^verbatim>\<open>stylegan2_pytorch/cli.py\<close>: a command-line wrapper around an external
  \<^verbatim>\<open>Trainer\<close>. Its own logic is the checkpoint callback \<^verbatim>\<open>on_model_save\<close>, the argument
  plumbing and training loop of \<^verbatim>\<open>run_training\<close>, and the dispatch of \<^verbatim>\<open>train_from_folder\<close>.

  Option values are dynamically typed, so they are values of \<open>pyval\<close>. Strings are
  \<open>string\<close> (8-bit characters; Python's non-ASCII digits are outside the model).
  A \<open>PFunc\<close> is a callable, identified by its name.
\<close>

datatype pyval =
    PNone
  | PBool bool
  | PInt int
  | PFloat real
  | PStr string
  | PList "pyval list"
  | PFunc string

text \<open>Truth value testing, as \<^verbatim>\<open>if v:\<close> and \<^verbatim>\<open>not v\<close> do it.\<close>

fun truthy :: "pyval \<Rightarrow> bool" where
  "truthy PNone = False"
| "truthy (PBool b) = b"
| "truthy (PInt k) = (k \<noteq> 0)"
| "truthy (PFloat x) = (x \<noteq> 0)"
| "truthy (PStr s) = (s \<noteq> [])"
| "truthy (PList vs) = (vs \<noteq> [])"
| "truthy (PFunc f) = True"

text \<open>
  Exceptions are values. \<open>OSError\<close> carries its message (it is printed by the pruning
  loop), \<open>AttributeError\<close> the attribute looked up on \<^verbatim>\<open>None\<close>, \<open>KeyError\<close> the missing key.
  \<open>OtherError\<close> stands for any exception class of an external library.
\<close>

datatype exn =
    OSError string
  | AttributeError string
  | ZeroDivisionError
  | TypeError
  | KeyError string
  | NanException
  | OtherError string

text \<open>
  The calls the callback makes on the outside world, in the order it makes them.
  \<open>Remove p\<close> is a call \<^verbatim>\<open>os.remove(p)\<close>, \<open>UploadBlob d p\<close> a call of \<^verbatim>\<open>upload_blob\<close> on the
  blob client for destination \<open>d\<close> with the opened file \<open>p\<close>.
\<close>

datatype event =
    Print string
  | Listdir string
  | Remove string
  | GetBlobClient string
  | Open string
  | UploadBlob string string

text \<open>
  The outside world answers through these functions: what \<^verbatim>\<open>os.listdir\<close> returns or
  raises, whether \<^verbatim>\<open>os.remove\<close>, \<^verbatim>\<open>open\<close> and \<^verbatim>\<open>upload_blob\<close> raise, and whether
  \<^verbatim>\<open>n % x == 0\<close> holds in floating point for a float \<open>x\<close>.
\<close>

record env =
  os_listdir :: "string \<Rightarrow> exn + string list"
  os_remove :: "string \<Rightarrow> exn option"
  open_rb :: "string \<Rightarrow> exn option"
  upload_blob :: "string \<Rightarrow> string \<Rightarrow> exn option"
  float_mod_is_zero :: "int \<Rightarrow> real \<Rightarrow> bool"

text \<open>
  The module globals (lines 19 to 23). A client that is \<^verbatim>\<open>None\<close> is \<open>None\<close>; a blob
  service client is known by the account URL and credential it was built from, a container
  client by its service and the container name.
\<close>

datatype blob_service = BlobServiceClient pyval pyval

datatype container = ContainerClient blob_service pyval

record globals =
  blob_service_client :: "blob_service option"
  container_client :: "container option"
  delete_old_models :: pyval
  upload_models :: pyval
  upload_every :: pyval

definition initial_globals :: globals where
  "initial_globals =
     \<lparr> blob_service_client = None, container_client = None,
       delete_old_models = PBool False, upload_models = PBool False,
       upload_every = PInt 10 \<rparr>"

section \<open>String operations of the callback\<close>

text \<open>\<^verbatim>\<open>s.startswith(p)\<close> and \<^verbatim>\<open>s.endswith(p)\<close>.\<close>

fun startswith :: "string \<Rightarrow> string \<Rightarrow> bool" where
  "startswith s [] = True"
| "startswith [] (p # ps) = False"
| "startswith (c # cs) (p # ps) = (c = p \<and> startswith cs ps)"

definition endswith :: "string \<Rightarrow> string \<Rightarrow> bool" where
  "endswith s p = startswith (rev s) (rev p)"

text \<open>
  \<^verbatim>\<open>os.path.split\<close> of \<^verbatim>\<open>posixpath\<close>: the tail is what follows the last slash, the head what
  precedes it, with its trailing slashes stripped unless it consists of slashes only.
\<close>

definition rstrip_sep :: "string \<Rightarrow> string" where
  "rstrip_sep s = rev (dropWhile (\<lambda>c. c = CHR ''/'') (rev s))"

definition path_split :: "string \<Rightarrow> string \<times> string" where
  "path_split p =
     (let head = rev (dropWhile (\<lambda>c. c \<noteq> CHR ''/'') (rev p));
          tail = rev (takeWhile (\<lambda>c. c \<noteq> CHR ''/'') (rev p))
      in (if head \<noteq> [] \<and> head \<noteq> replicate (length head) CHR ''/''
          then rstrip_sep head else head, tail))"

text \<open>
  \<^verbatim>\<open>re.match(r'model_(\d+).pt', file_name)\<close>: the literal prefix, then one or more digits
  taken greedily, then any character but a newline, then \<^verbatim>\<open>pt\<close>; nothing is required
  after that. When the rest fails to match, the digit group gives back one digit at a
  time (\<open>backtrack\<close>). The result is group 1, or \<open>None\<close> where \<^verbatim>\<open>re.match\<close> returns \<^verbatim>\<open>None\<close>.
\<close>

definition is_digit :: "char \<Rightarrow> bool" where
  "is_digit c = (48 \<le> (of_char c :: nat) \<and> (of_char c :: nat) \<le> 57)"

definition tail_matches :: "string \<Rightarrow> bool" where
  "tail_matches r =
     (case r of
        c # p # t # _ \<Rightarrow> c \<noteq> CHR 0x0A \<and> p = CHR ''p'' \<and> t = CHR ''t''
      | _ \<Rightarrow> False)"

fun backtrack :: "nat \<Rightarrow> string \<Rightarrow> string option" where
  "backtrack 0 r = None"
| "backtrack (Suc j) r =
     (if tail_matches (drop (Suc j) r) then Some (take (Suc j) r) else backtrack j r)"

definition re_match :: "string \<Rightarrow> string option" where
  "re_match s =
     (if startswith s ''model_''
      then (let r = drop 6 s in backtrack (length (takeWhile is_digit r)) r)
      else None)"

text \<open>\<^verbatim>\<open>int(ds)\<close> on a string of decimal digits.\<close>

definition py_int :: "string \<Rightarrow> int" where
  "py_int ds = foldl (\<lambda>a c. 10 * a + (int (of_char c) - 48)) 0 ds"

text \<open>
  \<^verbatim>\<open>(model_num % _upload_every) == 0\<close>. Integer \<^verbatim>\<open>%\<close> takes the sign of the divisor, as
  \<open>mod\<close> on \<open>int\<close> does, and raises on a zero divisor; a \<^verbatim>\<open>bool\<close> is the integer 0 or 1;
  a float divisor is computed in floating point (the environment's answer); any other
  operand is a type error.
\<close>

fun mod_is_zero :: "env \<Rightarrow> int \<Rightarrow> pyval \<Rightarrow> exn + bool" where
  "mod_is_zero e n (PInt k) = (if k = 0 then Inl ZeroDivisionError else Inr (n mod k = 0))"
| "mod_is_zero e n (PBool b) = (if b then Inr (n mod 1 = 0) else Inl ZeroDivisionError)"
| "mod_is_zero e n (PFloat x) =
     (if x = 0 then Inl ZeroDivisionError else Inr (float_mod_is_zero e n x))"
| "mod_is_zero e n PNone = Inl TypeError"
| "mod_is_zero e n (PStr s) = Inl TypeError"
| "mod_is_zero e n (PList vs) = Inl TypeError"
| "mod_is_zero e n (PFunc f) = Inl TypeError"

section \<open>The checkpoint callback \<^verbatim>\<open>on_model_save\<close>\<close>

text \<open>
  A run is the list of events so far and the exception that ended it, if any.
  \<open>after evs r\<close> is the run \<open>r\<close> preceded by the events \<open>evs\<close>.
\<close>

type_synonym run = "event list \<times> exn option"

definition after :: "event list \<Rightarrow> run \<Rightarrow> run" where
  "after evs r = (evs @ fst r, snd r)"

text \<open>
  The pruning loop (lines 37 to 52) over the names \<^verbatim>\<open>os.listdir\<close> returned. Only an
  \<^verbatim>\<open>OSError\<close> of \<^verbatim>\<open>os.remove\<close> is caught; the loop then prints it and goes on.
\<close>

fun prune_loop :: "env \<Rightarrow> string \<Rightarrow> string \<Rightarrow> string list \<Rightarrow> run" where
  "prune_loop e file_path model_path [] = ([], None)"
| "prune_loop e file_path model_path (i # rest) =
     (if \<not> startswith i ''model_'' \<or> \<not> endswith i ''.pt''
      then after [Print (''Skipping delete of '' @ i @ '' (not model file)'')]
             (prune_loop e file_path model_path rest)
      else if endswith model_path i
      then after [Print (''Skipping delete of '' @ i @ '' (current epoch)'')]
             (prune_loop e file_path model_path rest)
      else (case os_remove e (file_path @ ''/'' @ i) of
              None \<Rightarrow>
                after [Print (''Deleting '' @ i), Remove (file_path @ ''/'' @ i)]
                  (prune_loop e file_path model_path rest)
            | Some (OSError msg) \<Rightarrow>
                after [Print (''Deleting '' @ i), Remove (file_path @ ''/'' @ i),
                       Print (''Caught exception: '' @ msg)]
                  (prune_loop e file_path model_path rest)
            | Some x \<Rightarrow>
                ([Print (''Deleting '' @ i), Remove (file_path @ ''/'' @ i)], Some x)))"

text \<open>Lines 36 to 52: pruning runs when \<^verbatim>\<open>_delete_old_models\<close> is true.\<close>

definition prune_phase :: "env \<Rightarrow> globals \<Rightarrow> string \<Rightarrow> string \<Rightarrow> run" where
  "prune_phase e g file_path model_path =
     (if truthy (delete_old_models g)
      then (case os_listdir e file_path of
              Inl x \<Rightarrow> ([Listdir file_path], Some x)
            | Inr names \<Rightarrow> after [Listdir file_path] (prune_loop e file_path model_path names))
      else ([], None))"

text \<open>
  Lines 54 to 64. \<^verbatim>\<open>re.match(...)\<close> returning \<^verbatim>\<open>None\<close> makes \<^verbatim>\<open>.groups\<close> an attribute
  error, and so does \<^verbatim>\<open>.get_blob_client\<close> on a container client that is \<^verbatim>\<open>None\<close>.
\<close>

definition upload_phase :: "env \<Rightarrow> globals \<Rightarrow> string \<Rightarrow> string \<Rightarrow> string \<Rightarrow> run" where
  "upload_phase e g model_path file_name model_name =
     (if truthy (upload_models g)
      then (case re_match file_name of
              None \<Rightarrow> ([], Some (AttributeError ''groups''))
            | Some grp \<Rightarrow>
                (case mod_is_zero e (py_int grp) (upload_every g) of
                   Inl x \<Rightarrow> ([], Some x)
                 | Inr True \<Rightarrow>
                     (let dest_path = model_name @ ''/'' @ file_name in
                      case container_client g of
                        None \<Rightarrow> ([], Some (AttributeError ''get_blob_client''))
                      | Some c \<Rightarrow>
                          after [GetBlobClient dest_path, Print (''Uploading to '' @ dest_path),
                                 Open model_path]
                            (case open_rb e model_path of
                               Some x \<Rightarrow> ([], Some x)
                             | None \<Rightarrow>
                                 ([UploadBlob dest_path model_path],
                                  upload_blob e dest_path model_path)))
                 | Inr False \<Rightarrow> ([Print ''Skipping upload''], None)))
      else ([], None))"

definition on_model_save :: "env \<Rightarrow> globals \<Rightarrow> string \<Rightarrow> run" where
  "on_model_save e g model_path =
     (let (file_path, file_name) = path_split model_path;
          model_name = snd (path_split file_path);
          pruned = prune_phase e g file_path model_path
      in case snd pruned of
           Some x \<Rightarrow> pruned
         | None \<Rightarrow> after (fst pruned) (upload_phase e g model_path file_name model_name))"

text \<open>What a run did to the outside world: the paths removed, the uploads made.\<close>

fun removed :: "event list \<Rightarrow> string list" where
  "removed [] = []"
| "removed (Remove p # evs) = p # removed evs"
| "removed (ev # evs) = removed evs"

fun uploads :: "event list \<Rightarrow> (string \<times> string) list" where
  "uploads [] = []"
| "uploads (UploadBlob d p # evs) = (d, p) # uploads evs"
| "uploads (ev # evs) = uploads evs"

text \<open>The test of line 39 that lets the loop consider a directory entry for deletion.\<close>

definition model_file :: "string \<Rightarrow> bool" where
  "model_file i = (startswith i ''model_'' \<and> endswith i ''.pt'')"

section \<open>The training loop of \<^verbatim>\<open>run_training\<close>\<close>

text \<open>
  The external \<^verbatim>\<open>Trainer\<close> is known by its interface only: \<^verbatim>\<open>train()\<close> changes the
  trainer and may raise, \<^verbatim>\<open>.steps\<close> reads its step counter.
\<close>

record 't trainer_api =
  train :: "'t \<Rightarrow> 't \<times> exn option"
  steps :: "'t \<Rightarrow> int"

datatype train_event =
    TrainCall
  | Sleep nat
  | Refresh int
  | PrintLog

text \<open>
  Modelled from the spec: \<^verbatim>\<open>retry_call\<close> of the third-party package \<^verbatim>\<open>retry\<close> is imported
  (line 5) and is not part of the repository. The spec has the call retried "up to three
  times on a named numerical-instability error", "with no backoff", and "exhaustion
  propagates uncaught". The model follows the package's documented contract: \<open>tries\<close> is
  the maximum number of attempts, only the exceptions selected by \<open>catch\<close> are retried,
  the last of them is raised again, and between two attempts the call sleeps \<open>delay\<close>
  seconds, multiplied by \<open>backoff\<close> after each (defaults 0 and 1).
\<close>

fun retry_call ::
  "('t \<Rightarrow> 't \<times> exn option) \<Rightarrow> (exn \<Rightarrow> bool) \<Rightarrow> nat \<Rightarrow> nat \<Rightarrow> nat \<Rightarrow> 't
     \<Rightarrow> train_event list \<times> 't \<times> exn option" where
  "retry_call f catch 0 delay backoff m = ([], m, None)"
| "retry_call f catch (Suc tries) delay backoff m =
     (case f m of
        (m', None) \<Rightarrow> ([TrainCall], m', None)
      | (m', Some x) \<Rightarrow>
          if catch x \<and> tries \<noteq> 0
          then (case retry_call f catch tries (delay * backoff) backoff m' of
                  (evs, r) \<Rightarrow> (TrainCall # Sleep delay # evs, r))
          else ([TrainCall], m', Some x))"

text \<open>Line 132: \<^verbatim>\<open>retry_call(model.train, tries=3, exceptions=NanException)\<close>.\<close>

definition retry_train :: "'t trainer_api \<Rightarrow> 't \<Rightarrow> train_event list \<times> 't \<times> exn option" where
  "retry_train api m = retry_call (train api) (\<lambda>x. x = NanException) 3 0 1 m"

text \<open>The number of calls of \<^verbatim>\<open>train()\<close> among the events.\<close>

definition attempts :: "train_event list \<Rightarrow> nat" where
  "attempts evs = length (filter (\<lambda>ev. ev = TrainCall) evs)"

text \<open>
  Lines 131 to 136. The loop ends when the trainer's step counter reaches
  \<^verbatim>\<open>num_train_steps\<close> or an exception leaves \<^verbatim>\<open>retry_call\<close>; a trainer that never advances
  keeps it running, which is the value \<open>None\<close>. The events made so far are carried in
  \<open>acc\<close>.
\<close>

partial_function (option) training_loop ::
  "'t trainer_api \<Rightarrow> int \<Rightarrow> bool \<Rightarrow> train_event list \<Rightarrow> 't
     \<Rightarrow> (train_event list \<times> 't \<times> exn option) option" where
  "training_loop api num_train_steps is_main acc m =
     (if steps api m < num_train_steps
      then (case retry_train api m of
              (evs, m', Some x) \<Rightarrow> Some (acc @ evs, m', Some x)
            | (evs, m', None) \<Rightarrow>
                training_loop api num_train_steps is_main
                  (acc @ evs @ [Refresh (steps api m')] @
                     (if is_main \<and> steps api m' mod 50 = 0 then [PrintLog] else []))
                  m')
      else Some (acc, m, None))"

section \<open>The argument plumbing of \<^verbatim>\<open>run_training\<close>\<close>

text \<open>
  \<^verbatim>\<open>model_args\<close> is a dictionary from option names to values. The outside world of the
  set-up: whether \<^verbatim>\<open>dist.init_process_group\<close> raises for a rank and world size, and whether
  building the blob service client or its container client raises.
\<close>

type_synonym kwargs = "string \<rightharpoonup> pyval"

record setup_env =
  init_process_group :: "int \<Rightarrow> int \<Rightarrow> exn option"
  new_blob_service :: "pyval \<Rightarrow> pyval \<Rightarrow> exn option"
  get_container_client :: "blob_service \<Rightarrow> pyval \<Rightarrow> exn option"

text \<open>\<^verbatim>\<open>model_args[k]\<close>: a missing key is a \<^verbatim>\<open>KeyError\<close>.\<close>

definition item :: "kwargs \<Rightarrow> string \<Rightarrow> exn + pyval" where
  "item m k = (case m k of None \<Rightarrow> Inl (KeyError k) | Some v \<Rightarrow> Inr v)"

text \<open>Lines 106 and 107, run when the global \<^verbatim>\<open>_upload_models\<close> is true at line 105.\<close>

definition connect :: "setup_env \<Rightarrow> globals \<Rightarrow> kwargs \<Rightarrow> exn + globals" where
  "connect se g m =
     (case item m ''account_url'' of Inl x \<Rightarrow> Inl x | Inr url \<Rightarrow>
      case item m ''credential'' of Inl x \<Rightarrow> Inl x | Inr cred \<Rightarrow>
      case new_blob_service se url cred of Some x \<Rightarrow> Inl x | None \<Rightarrow>
      case item m ''container_name'' of Inl x \<Rightarrow> Inl x | Inr cn \<Rightarrow>
      case get_container_client se (BlobServiceClient url cred) cn of Some x \<Rightarrow> Inl x | None \<Rightarrow>
        Inr (g\<lparr> blob_service_client := Some (BlobServiceClient url cred),
                container_client := Some (ContainerClient (BlobServiceClient url cred) cn) \<rparr>))"

text \<open>
  Lines 104 to 112, the block under \<^verbatim>\<open>if is_main\<close>. The test of line 105 reads the global
  as it is before line 110 assigns it.
\<close>

definition main_rank_setup :: "setup_env \<Rightarrow> globals \<Rightarrow> kwargs \<Rightarrow> exn + globals \<times> kwargs" where
  "main_rank_setup se g m =
     (case (if truthy (upload_models g) then connect se g m else Inr g) of
        Inl x \<Rightarrow> Inl x
      | Inr g1 \<Rightarrow>
          (let m1 = m(''save_callback'' \<mapsto> PFunc ''on_model_save'') in
           case item m1 ''upload_models'' of Inl x \<Rightarrow> Inl x | Inr um \<Rightarrow>
           case item m1 ''upload_every'' of Inl x \<Rightarrow> Inl x | Inr ue \<Rightarrow>
           case item m1 ''delete_old_models'' of Inl x \<Rightarrow> Inl x | Inr dl \<Rightarrow>
             Inr (g1\<lparr> upload_models := um, upload_every := ue, delete_old_models := dl \<rparr>,
                  m1)))"

text \<open>Lines 114 to 119: \<^verbatim>\<open>model_args.pop(k, None)\<close> for the six cloud keys.\<close>

definition cloud_keys :: "string list" where
  "cloud_keys = [''upload_models'', ''upload_every'', ''delete_old_models'',
                 ''account_url'', ''credential'', ''container_name'']"

definition pop_all :: "string list \<Rightarrow> kwargs \<Rightarrow> kwargs" where
  "pop_all ks m = foldl (\<lambda>m k. m(k := None)) m ks"

text \<open>
  Lines 87 to 121 of \<^verbatim>\<open>run_training\<close>: from the globals and the dictionary it is given to
  the globals it leaves and the keyword arguments \<^verbatim>\<open>Trainer(**model_args)\<close> receives, or
  the exception that ends the call before the trainer is built.
\<close>

definition run_training_args ::
  "setup_env \<Rightarrow> globals \<Rightarrow> int \<Rightarrow> int \<Rightarrow> kwargs \<Rightarrow> exn + globals \<times> kwargs" where
  "run_training_args se g rank world_size m =
     (let is_main = (rank = 0);
          is_ddp = (world_size > 1)
      in case (if is_ddp then init_process_group se rank world_size else None) of
           Some x \<Rightarrow> Inl x
         | None \<Rightarrow>
             (let m0 = m(''is_ddp'' \<mapsto> PBool is_ddp, ''rank'' \<mapsto> PInt rank,
                         ''world_size'' \<mapsto> PInt world_size)
              in case (if is_main then main_rank_setup se g m0 else Inr (g, m0)) of
                   Inl x \<Rightarrow> Inl x
                 | Inr (g', m1) \<Rightarrow> Inr (g', pop_all cloud_keys m1)))"

section \<open>The entry point \<^verbatim>\<open>train_from_folder\<close>\<close>

text \<open>\<^verbatim>\<open>cast_list\<close> (line 66).\<close>

definition cast_list :: "pyval \<Rightarrow> pyval" where
  "cast_list el = (case el of PList vs \<Rightarrow> el | _ \<Rightarrow> PList [el])"

text \<open>
  Lines 213 to 265: the dictionary built from the parameters \<open>p\<close> of the call (a value
  for every parameter name, Python having filled in the defaults).
\<close>

definition model_args :: "(string \<Rightarrow> pyval) \<Rightarrow> kwargs" where
  "model_args p = map_of
     [(''name'', p ''name''),
      (''results_dir'', p ''results_dir''),
      (''models_dir'', p ''models_dir''),
      (''batch_size'', p ''batch_size''),
      (''gradient_accumulate_every'', p ''gradient_accumulate_every''),
      (''image_size'', p ''image_size''),
      (''network_capacity'', p ''network_capacity''),
      (''fmap_max'', p ''fmap_max''),
      (''transparent'', p ''transparent''),
      (''lr'', p ''learning_rate''),
      (''lr_mlp'', p ''lr_mlp''),
      (''ttur_mult'', p ''ttur_mult''),
      (''rel_disc_loss'', p ''rel_disc_loss''),
      (''num_workers'', p ''num_workers''),
      (''save_every'', p ''save_every''),
      (''save_callback'', p ''save_callback''),
      (''evaluate_every'', p ''evaluate_every''),
      (''evaluate_callback'', p ''evaluate_callback''),
      (''num_image_tiles'', p ''num_image_tiles''),
      (''trunc_psi'', p ''trunc_psi''),
      (''fp16'', p ''fp16''),
      (''no_pl_reg'', p ''no_pl_reg''),
      (''cl_reg'', p ''cl_reg''),
      (''fq_layers'', p ''fq_layers''),
      (''fq_dict_size'', p ''fq_dict_size''),
      (''attn_layers'', p ''attn_layers''),
      (''no_const'', p ''no_const''),
      (''aug_prob'', p ''aug_prob''),
      (''aug_types'', cast_list (p ''aug_types'')),
      (''top_k_training'', p ''top_k_training''),
      (''generator_top_k_gamma'', p ''generator_top_k_gamma''),
      (''generator_top_k_frac'', p ''generator_top_k_frac''),
      (''dual_contrast_loss'', p ''dual_contrast_loss''),
      (''dataset_aug_prob'', p ''dataset_aug_prob''),
      (''calculate_fid_every'', p ''calculate_fid_every''),
      (''calculate_fid_num_images'', p ''calculate_fid_num_images''),
      (''clear_fid_cache'', p ''clear_fid_cache''),
      (''mixed_prob'', p ''mixed_prob''),
      (''log'', p ''log''),
      (''lookahead'', p ''lookahead''),
      (''lookahead_alpha'', p ''lookahead_alpha''),
      (''lookahead_k'', p ''lookahead_k''),
      (''ema_beta'', p ''ema_beta''),
      (''delete_old_models'', p ''delete_old_models''),
      (''upload_models'', p ''upload_models''),
      (''upload_every'', p ''upload_every''),
      (''account_url'', p ''account_url''),
      (''credential'', p ''credential''),
      (''container_name'', p ''container_name'')]"

text \<open>
  What \<^verbatim>\<open>train_from_folder\<close> goes on to do with the dictionary (lines 267 to 293): build a
  trainer from it to generate samples or an interpolation, call \<^verbatim>\<open>run_training\<close> in the
  current process, or hand \<^verbatim>\<open>run_training\<close> to \<^verbatim>\<open>mp.spawn\<close> with a number of processes and
  the world size that leads its argument tuple.
\<close>

datatype dispatch =
    GenerateSamples kwargs
  | GenerateInterpolation kwargs
  | TrainHere int int kwargs
  | Spawn nat int kwargs

definition train_from_folder :: "(string \<Rightarrow> pyval) \<Rightarrow> nat \<Rightarrow> dispatch" where
  "train_from_folder p device_count =
     (let margs = model_args p in
      if truthy (p ''generate'') then GenerateSamples margs
      else if truthy (p ''generate_interpolation'') then GenerateInterpolation margs
      else (let world_size = int device_count in
            if world_size = 1 \<or> \<not> truthy (p ''multi_gpus'')
            then TrainHere 0 1 margs
            else Spawn device_count world_size margs))"

text \<open>
  The calls \<^verbatim>\<open>run_training(rank, world_size, model_args, ...)\<close> a dispatch leads to.
  \<^verbatim>\<open>mp.spawn(fn, args, nprocs)\<close> of PyTorch starts \<open>nprocs\<close> processes, and process \<open>i\<close>
  calls \<^verbatim>\<open>fn(i, *args)\<close>.
\<close>

fun run_training_calls :: "dispatch \<Rightarrow> (int \<times> int \<times> kwargs) list" where
  "run_training_calls (GenerateSamples m) = []"
| "run_training_calls (GenerateInterpolation m) = []"
| "run_training_calls (TrainHere rank world_size m) = [(rank, world_size, m)]"
| "run_training_calls (Spawn nprocs world_size m) =
     map (\<lambda>i. (int i, world_size, m)) [0..<nprocs]"

text \<open>The keyword arguments the generation modes pass to \<^verbatim>\<open>Trainer\<close> (lines 268 and 277).\<close>

fun generation_kwargs :: "dispatch \<Rightarrow> kwargs option" where
  "generation_kwargs (GenerateSamples m) = Some m"
| "generation_kwargs (GenerateInterpolation m) = Some m"
| "generation_kwargs (TrainHere rank world_size m) = None"
| "generation_kwargs (Spawn nprocs world_size m) = None"

section \<open>Example inputs\<close>

text \<open>The defaults of \<^verbatim>\<open>train_from_folder\<close> (lines 144 to 205).\<close>

definition defaults :: "(string \<times> pyval) list" where
  "defaults =
     [(''data'', PStr ''./data''),
      (''results_dir'', PStr ''./results''),
      (''models_dir'', PStr ''./models''),
      (''name'', PStr ''default''),
      (''new'', PBool False),
      (''load_from'', PInt (- 1)),
      (''image_size'', PInt 128),
      (''network_capacity'', PInt 16),
      (''fmap_max'', PInt 512),
      (''transparent'', PBool False),
      (''batch_size'', PInt 5),
      (''gradient_accumulate_every'', PInt 6),
      (''num_train_steps'', PInt 150000),
      (''learning_rate'', PFloat (2 / 10000)),
      (''lr_mlp'', PFloat (1 / 10)),
      (''ttur_mult'', PFloat (3 / 2)),
      (''rel_disc_loss'', PBool False),
      (''num_workers'', PNone),
      (''save_every'', PInt 1000),
      (''save_callback'', PNone),
      (''evaluate_every'', PInt 1000),
      (''evaluate_callback'', PNone),
      (''generate'', PBool False),
      (''num_generate'', PInt 1),
      (''generate_interpolation'', PBool False),
      (''interpolation_num_steps'', PInt 100),
      (''save_frames'', PBool False),
      (''num_image_tiles'', PInt 8),
      (''trunc_psi'', PFloat (3 / 4)),
      (''mixed_prob'', PFloat (9 / 10)),
      (''fp16'', PBool False),
      (''no_pl_reg'', PBool False),
      (''cl_reg'', PBool False),
      (''fq_layers'', PList []),
      (''fq_dict_size'', PInt 256),
      (''attn_layers'', PList []),
      (''no_const'', PBool False),
      (''aug_prob'', PFloat 0),
      (''aug_types'', PList [PStr ''translation'', PStr ''cutout'']),
      (''top_k_training'', PBool False),
      (''generator_top_k_gamma'', PFloat (99 / 100)),
      (''generator_top_k_frac'', PFloat (1 / 2)),
      (''dual_contrast_loss'', PBool False),
      (''dataset_aug_prob'', PFloat 0),
      (''multi_gpus'', PBool False),
      (''calculate_fid_every'', PNone),
      (''calculate_fid_num_images'', PInt 12800),
      (''clear_fid_cache'', PBool False),
      (''seed'', PInt 42),
      (''log'', PBool False),
      (''lookahead'', PBool False),
      (''lookahead_alpha'', PFloat (1 / 2)),
      (''lookahead_k'', PInt 5),
      (''ema_beta'', PFloat (9999 / 10000)),
      (''delete_old_models'', PBool True),
      (''upload_models'', PBool True),
      (''upload_every'', PInt 10),
      (''account_url'', PStr []),
      (''credential'', PStr []),
      (''container_name'', PStr [])]"

text \<open>The parameters of a call that passes the options \<open>given\<close>.\<close>

definition params :: "kwargs \<Rightarrow> string \<Rightarrow> pyval" where
  "params given k =
     (case given k of
        Some v \<Rightarrow> v
      | None \<Rightarrow> (case map_of defaults k of Some v \<Rightarrow> v | None \<Rightarrow> PNone))"

text \<open>
  A checkpoint directory with three checkpoints and a stray file, in a world where every
  call succeeds; the same world where removing \<^verbatim>\<open>model_18.pt\<close> is refused; and the globals
  of a run that uploads every tenth checkpoint to a container and prunes.
\<close>

definition example_env :: env where
  "example_env =
     \<lparr> os_listdir = (\<lambda>d. if d = ''models/default''
                          then Inr [''model_18.pt'', ''model_19.pt'', ''model_20.pt'',
                                    ''notes.txt'']
                          else Inl (OSError ''No such file or directory'')),
       os_remove = (\<lambda>p. None),
       open_rb = (\<lambda>p. None),
       upload_blob = (\<lambda>d p. None),
       float_mod_is_zero = (\<lambda>n x. False) \<rparr>"

definition denying_env :: env where
  "denying_env =
     example_env\<lparr> os_remove :=
       (\<lambda>p. if p = ''models/default/model_18.pt''
            then Some (OSError ''Permission denied'') else None) \<rparr>"

definition example_globals :: globals where
  "example_globals =
     \<lparr> blob_service_client = Some (BlobServiceClient (PStr ''url'') (PStr ''key'')),
       container_client =
         Some (ContainerClient (BlobServiceClient (PStr ''url'') (PStr ''key'')) (PStr ''ckpt'')),
       delete_old_models = PBool True, upload_models = PBool True,
       upload_every = PInt 10 \<rparr>"

text \<open>
  The example of the spec: thirty checkpoints \<^verbatim>\<open>model_00.pt\<close> to \<^verbatim>\<open>model_29.pt\<close> in the
  directory.
\<close>

definition spec_example_env :: env where
  "spec_example_env =
     example_env\<lparr> os_listdir := (\<lambda>d. Inr
       [''model_00.pt'', ''model_01.pt'', ''model_02.pt'', ''model_03.pt'', ''model_04.pt'',
        ''model_05.pt'', ''model_06.pt'', ''model_07.pt'', ''model_08.pt'', ''model_09.pt'',
        ''model_10.pt'', ''model_11.pt'', ''model_12.pt'', ''model_13.pt'', ''model_14.pt'',
        ''model_15.pt'', ''model_16.pt'', ''model_17.pt'', ''model_18.pt'', ''model_19.pt'',
        ''model_20.pt'', ''model_21.pt'', ''model_22.pt'', ''model_23.pt'', ''model_24.pt'',
        ''model_25.pt'', ''model_26.pt'', ''model_27.pt'', ''model_28.pt'', ''model_29.pt'']) \<rparr>"

text \<open>
  The globals after the first call of \<^verbatim>\<open>run_training\<close> in a process, on rank 0 and with
  the default options: the three options are taken over, the clients are still \<^verbatim>\<open>None\<close>.
\<close>

definition first_run_globals :: globals where
  "first_run_globals =
     \<lparr> blob_service_client = None, container_client = None,
       delete_old_models = PBool True, upload_models = PBool True,
       upload_every = PInt 10 \<rparr>"

text \<open>
  A trainer whose state counts the calls of \<^verbatim>\<open>train()\<close>: the first \<open>k\<close> calls raise
  \<^verbatim>\<open>NanException\<close>, and the step counter is the number of calls.
\<close>

definition flaky_trainer :: "nat \<Rightarrow> nat trainer_api" where
  "flaky_trainer k =
     \<lparr> train = (\<lambda>s. (Suc s, if s < k then Some NanException else None)),
       steps = (\<lambda>s. int s) \<rparr>"

text \<open>A set-up world in which every external call succeeds.\<close>

definition example_setup_env :: setup_env where
  "example_setup_env =
     \<lparr> init_process_group = (\<lambda>rank world_size. None),
       new_blob_service = (\<lambda>url cred. None),
       get_container_client = (\<lambda>svc cn. None) \<rparr>"

section \<open>Facts about the string operations\<close>

lemma startswith_iff: "startswith s p \<longleftrightarrow> (\<exists>t. s = p @ t)"
  by (induction s p rule: startswith.induct) auto

lemma endswith_iff: "endswith s p \<longleftrightarrow> (\<exists>t. s = t @ p)"
proof
  assume "endswith s p"
  then obtain t where "rev s = rev p @ t"
    by (auto simp: endswith_def startswith_iff)
  then have "s = rev t @ p"
    by (metis rev_append rev_rev_ident)
  then show "\<exists>t. s = t @ p" ..
next
  assume "\<exists>t. s = t @ p"
  then obtain t where "s = t @ p" ..
  then have "rev s = rev p @ rev t" by simp
  then show "endswith s p"
    by (auto simp: endswith_def startswith_iff)
qed

lemma endswith_append: "endswith (a @ b) b"
  by (auto simp: endswith_iff)

lemma startswith_takeWhile: "startswith xs (takeWhile P xs)"
  by (induction xs) auto

lemma endswith_file_name: "endswith p (snd (path_split p))"
  by (simp add: path_split_def Let_def endswith_def startswith_takeWhile)

section \<open>Facts about runs\<close>

lemma fst_after: "fst (after evs r) = evs @ fst r"
  by (simp add: after_def)

lemma snd_after: "snd (after evs r) = snd r"
  by (simp add: after_def)

lemma removed_append: "removed (a @ b) = removed a @ removed b"
  by (induction a rule: removed.induct) auto

lemma uploads_append: "uploads (a @ b) = uploads a @ uploads b"
  by (induction a rule: uploads.induct) auto

lemma Remove_in_removed: "Remove p \<in> set evs \<longleftrightarrow> p \<in> set (removed evs)"
  by (induction evs rule: removed.induct) auto

lemmas eval_defs =
  on_model_save_def prune_phase_def upload_phase_def after_def path_split_def rstrip_sep_def
  endswith_def re_match_def is_digit_def tail_matches_def py_int_def Let_def
  example_env_def denying_env_def example_globals_def initial_globals_def
  first_run_globals_def

section \<open>The pruning loop\<close>

lemma prune_loop_Remove:
  "Remove p \<in> set (fst (prune_loop e fp mp names)) \<Longrightarrow>
     \<exists>i\<in>set names. p = fp @ ''/'' @ i \<and> startswith i ''model_'' \<and> endswith i ''.pt''
        \<and> \<not> endswith mp i"
proof (induction names)
  case Nil
  then show ?case by simp
next
  case (Cons i rest)
  then show ?case
    by (auto simp: fst_after split: if_splits option.splits exn.splits)
qed

lemma upload_phase_no_Remove: "Remove p \<notin> set (fst (upload_phase e g mp fn mn))"
  by (auto simp: upload_phase_def fst_after Let_def
      split: option.splits sum.splits bool.splits)

lemma on_model_save_Remove:
  assumes "Remove p \<in> set (fst (on_model_save e g mp))"
  shows "\<exists>i. p = fst (path_split mp) @ ''/'' @ i \<and> startswith i ''model_''
            \<and> endswith i ''.pt'' \<and> \<not> endswith mp i"
proof -
  obtain fp fn where sp: "path_split mp = (fp, fn)"
    by (cases "path_split mp")
  have "Remove p \<in> set (fst (prune_phase e g fp mp))"
    using assms upload_phase_no_Remove [of p e g mp fn "snd (path_split fp)"]
    by (auto simp: on_model_save_def sp fst_after Let_def split: option.splits)
  then obtain names where "Remove p \<in> set (fst (prune_loop e fp mp names))"
    by (auto simp: prune_phase_def fst_after split: if_splits sum.splits)
  from prune_loop_Remove [OF this] show ?thesis
    by (auto simp: sp)
qed

section \<open>Pruning spares the checkpoint being saved and what is not a model file\<close>

text \<open>
  Claim C2. Whatever the directory holds and whatever the globals are, a call of
  \<^verbatim>\<open>on_model_save\<close> never calls \<^verbatim>\<open>os.remove\<close> on the path it was given, nor on the entry of
  the checkpoint directory that has the saved file's name.
\<close>

theorem current_checkpoint_never_removed:
  "Remove model_path \<notin> set (fst (on_model_save e g model_path)) \<and>
   Remove (fst (path_split model_path) @ ''/'' @ snd (path_split model_path))
     \<notin> set (fst (on_model_save e g model_path))"
proof
  show "Remove model_path \<notin> set (fst (on_model_save e g model_path))"
  proof
    assume "Remove model_path \<in> set (fst (on_model_save e g model_path))"
    from on_model_save_Remove [OF this] obtain i
      where "model_path = fst (path_split model_path) @ ''/'' @ i"
        and "\<not> endswith model_path i"
      by blast
    then show False
      by (metis endswith_append append_assoc)
  qed
  show "Remove (fst (path_split model_path) @ ''/'' @ snd (path_split model_path))
     \<notin> set (fst (on_model_save e g model_path))"
  proof
    assume "Remove (fst (path_split model_path) @ ''/'' @ snd (path_split model_path))
     \<in> set (fst (on_model_save e g model_path))"
    from on_model_save_Remove [OF this] obtain i
      where "fst (path_split model_path) @ ''/'' @ snd (path_split model_path)
               = fst (path_split model_path) @ ''/'' @ i"
        and "\<not> endswith model_path i"
      by blast
    then show False
      using endswith_file_name [of model_path] by simp
  qed
qed

theorem current_checkpoint_never_removed_witness:
  "removed (fst (on_model_save example_env example_globals ''models/default/model_20.pt''))
     = [''models/default/model_18.pt'', ''models/default/model_19.pt''] \<and>
   Remove ''models/default/model_20.pt''
     \<notin> set (fst (on_model_save example_env example_globals ''models/default/model_20.pt''))"
  using current_checkpoint_never_removed
          [of "''models/default/model_20.pt''" example_env example_globals]
  by (simp add: eval_defs)

text \<open>
  Claim C3. A name that fails the loop's test for a model file (it does not start with
  \<^verbatim>\<open>model_\<close> or does not end with \<^verbatim>\<open>.pt\<close>) is never removed from the checkpoint directory
  by \<^verbatim>\<open>on_model_save\<close>.
\<close>

theorem non_model_files_skipped:
  assumes "\<not> startswith i ''model_'' \<or> \<not> endswith i ''.pt''"
  shows "Remove (fst (path_split model_path) @ ''/'' @ i)
           \<notin> set (fst (on_model_save e g model_path))"
proof
  assume "Remove (fst (path_split model_path) @ ''/'' @ i)
            \<in> set (fst (on_model_save e g model_path))"
  from on_model_save_Remove [OF this] obtain j
    where "fst (path_split model_path) @ ''/'' @ i = fst (path_split model_path) @ ''/'' @ j"
      and "startswith j ''model_''" and "endswith j ''.pt''"
    by blast
  with assms show False by simp
qed

theorem non_model_files_skipped_witness:
  "\<not> startswith ''notes.txt'' ''model_'' \<and>
   Print ''Skipping delete of notes.txt (not model file)''
     \<in> set (fst (on_model_save example_env example_globals ''models/default/model_20.pt'')) \<and>
   Remove ''models/default/notes.txt''
     \<notin> set (fst (on_model_save example_env example_globals ''models/default/model_20.pt''))"
proof -
  have h: "\<not> startswith ''notes.txt'' ''model_'' \<or> \<not> endswith ''notes.txt'' ''.pt''"
    by (simp add: endswith_def)
  show ?thesis
    using h non_model_files_skipped
            [OF h, of "''models/default/model_20.pt''" example_env example_globals]
    by (simp add: eval_defs)
qed

section \<open>Errors of \<^verbatim>\<open>os.remove\<close> stay inside the pruning loop\<close>

lemma prune_loop_ok:
  assumes "\<And>p x. os_remove e p = Some x \<Longrightarrow> \<exists>msg. x = OSError msg"
  shows "snd (prune_loop e fp mp names) = None"
proof (induction names)
  case Nil
  show ?case by simp
next
  case (Cons i rest)
  show ?case
  proof (cases "os_remove e (fp @ ''/'' @ i)")
    case None
    with Cons show ?thesis by (simp add: snd_after)
  next
    case (Some x)
    with assms obtain msg where "x = OSError msg" by blast
    with Some Cons show ?thesis by (simp add: snd_after)
  qed
qed

lemma prune_loop_removed:
  assumes "\<And>p x. os_remove e p = Some x \<Longrightarrow> \<exists>msg. x = OSError msg"
  shows "removed (fst (prune_loop e fp mp names)) =
           map (\<lambda>i. fp @ ''/'' @ i) (filter (\<lambda>i. model_file i \<and> \<not> endswith mp i) names)"
proof (induction names)
  case Nil
  show ?case by simp
next
  case (Cons i rest)
  show ?case
  proof (cases "os_remove e (fp @ ''/'' @ i)")
    case None
    with Cons show ?thesis by (simp add: fst_after model_file_def)
  next
    case (Some x)
    with assms obtain msg where "x = OSError msg" by blast
    with Some Cons show ?thesis by (simp add: fst_after removed_append model_file_def)
  qed
qed

lemma prune_loop_logged:
  assumes "\<And>p x. os_remove e p = Some x \<Longrightarrow> \<exists>msg. x = OSError msg"
    and "i \<in> set names" and "model_file i" and "\<not> endswith mp i"
    and "os_remove e (fp @ ''/'' @ i) = Some (OSError msg)"
  shows "Print (''Caught exception: '' @ msg) \<in> set (fst (prune_loop e fp mp names))"
  using assms(2)
proof (induction names)
  case Nil
  then show ?case by simp
next
  case (Cons j rest)
  show ?case
  proof (cases "j = i")
    case True
    with assms(3-5) show ?thesis by (simp add: fst_after model_file_def)
  next
    case False
    with Cons have ih: "Print (''Caught exception: '' @ msg) \<in> set (fst (prune_loop e fp mp rest))"
      by simp
    show ?thesis
    proof (cases "os_remove e (fp @ ''/'' @ j)")
      case None
      with ih show ?thesis by (simp add: fst_after)
    next
      case (Some x)
      with assms(1) obtain m where "x = OSError m" by blast
      with Some ih show ?thesis by (simp add: fst_after)
    qed
  qed
qed

lemma mod_is_zero_os_remove: "mod_is_zero (e\<lparr>os_remove := f\<rparr>) n v = mod_is_zero e n v"
  by (cases v) simp_all

lemma upload_phase_os_remove:
  "upload_phase (e\<lparr>os_remove := f\<rparr>) g mp fn mn = upload_phase e g mp fn mn"
  by (auto simp: upload_phase_def mod_is_zero_os_remove Let_def
      split: option.splits sum.splits bool.splits)

lemma prune_phase_ok:
  assumes "\<And>p x. os_remove e p = Some x \<Longrightarrow> \<exists>msg. x = OSError msg"
  shows "snd (prune_phase e g fp mp) =
           (if truthy (delete_old_models g)
            then (case os_listdir e fp of Inl x \<Rightarrow> Some x | Inr names \<Rightarrow> None) else None)"
  using prune_loop_ok [OF assms]
  by (simp add: prune_phase_def snd_after split: sum.splits)

lemma snd_on_model_save:
  "snd (on_model_save e g mp) =
     (case snd (prune_phase e g (fst (path_split mp)) mp) of
        Some x \<Rightarrow> Some x
      | None \<Rightarrow> snd (upload_phase e g mp (snd (path_split mp))
                       (snd (path_split (fst (path_split mp))))))"
  by (simp add: on_model_save_def Let_def snd_after split: prod.splits option.splits)

text \<open>
  Claim C6. When \<^verbatim>\<open>os.remove\<close> raises nothing but \<^verbatim>\<open>OSError\<close>, the pruning loop raises
  nothing, it calls \<^verbatim>\<open>os.remove\<close> on every model file of the directory other than the ones
  the saved path ends with (a failure does not stop it), a failed removal is followed by
  the print of the caught error, and the exception \<^verbatim>\<open>on_model_save\<close> ends with, if any, is
  the one it ends with when every removal succeeds.
\<close>
theorem removal_errors_are_caught:
  assumes "\<And>p x. os_remove e p = Some x \<Longrightarrow> \<exists>msg. x = OSError msg"
  shows "snd (prune_loop e file_path model_path names) = None \<and>
         removed (fst (prune_loop e file_path model_path names)) =
           map (\<lambda>i. file_path @ ''/'' @ i)
             (filter (\<lambda>i. model_file i \<and> \<not> endswith model_path i) names) \<and>
         (\<forall>i msg. i \<in> set names \<and> model_file i \<and> \<not> endswith model_path i \<and>
              os_remove e (file_path @ ''/'' @ i) = Some (OSError msg) \<longrightarrow>
            Print (''Caught exception: '' @ msg)
              \<in> set (fst (prune_loop e file_path model_path names))) \<and>
         snd (on_model_save e g model_path) =
           snd (on_model_save (e\<lparr>os_remove := (\<lambda>p. None)\<rparr>) g model_path)"
proof (intro conjI allI impI)
  show "snd (prune_loop e file_path model_path names) = None"
    by (rule prune_loop_ok [OF assms])
  show "removed (fst (prune_loop e file_path model_path names)) =
           map (\<lambda>i. file_path @ ''/'' @ i)
             (filter (\<lambda>i. model_file i \<and> \<not> endswith model_path i) names)"
    by (rule prune_loop_removed [OF assms])
  show "Print (''Caught exception: '' @ msg)
          \<in> set (fst (prune_loop e file_path model_path names))"
    if "i \<in> set names \<and> model_file i \<and> \<not> endswith model_path i \<and>
        os_remove e (file_path @ ''/'' @ i) = Some (OSError msg)" for i msg
  proof -
    from that have a: "i \<in> set names" and b: "model_file i"
      and c: "\<not> endswith model_path i"
      and d: "os_remove e (file_path @ ''/'' @ i) = Some (OSError msg)"
      by simp_all
    show ?thesis
      by (rule prune_loop_logged [OF assms a b c d])
  qed
  have "snd (prune_phase e g fp model_path) =
        snd (prune_phase (e\<lparr>os_remove := (\<lambda>p. None)\<rparr>) g fp model_path)" for fp
    using prune_phase_ok [of e g fp model_path, OF assms]
      prune_phase_ok [of "e\<lparr>os_remove := (\<lambda>p. None)\<rparr>" g fp model_path]
    by simp
  then show "snd (on_model_save e g model_path) =
           snd (on_model_save (e\<lparr>os_remove := (\<lambda>p. None)\<rparr>) g model_path)"
    by (simp add: snd_on_model_save upload_phase_os_remove split: option.splits)
qed

theorem removal_errors_are_caught_witness:
  "os_remove denying_env ''models/default/model_18.pt'' = Some (OSError ''Permission denied'') \<and>
   on_model_save denying_env example_globals ''models/default/model_20.pt'' =
     ([Listdir ''models/default'',
       Print ''Deleting model_18.pt'', Remove ''models/default/model_18.pt'',
       Print ''Caught exception: Permission denied'',
       Print ''Deleting model_19.pt'', Remove ''models/default/model_19.pt'',
       Print ''Skipping delete of model_20.pt (current epoch)'',
       Print ''Skipping delete of notes.txt (not model file)'',
       GetBlobClient ''default/model_20.pt'', Print ''Uploading to default/model_20.pt'',
       Open ''models/default/model_20.pt'',
       UploadBlob ''default/model_20.pt'' ''models/default/model_20.pt''], None) \<and>
   snd (prune_loop denying_env ''models/default'' ''models/default/model_20.pt''
          [''model_18.pt'', ''model_19.pt'', ''model_20.pt'', ''notes.txt'']) = None"
proof -
  have h: "\<And>p x. os_remove denying_env p = Some x \<Longrightarrow> \<exists>msg. x = OSError msg"
    by (auto simp: denying_env_def example_env_def split: if_splits)
  show ?thesis
    using removal_errors_are_caught [of denying_env "''models/default''"
          "''models/default/model_20.pt''"
          "[''model_18.pt'', ''model_19.pt'', ''model_20.pt'', ''notes.txt'']" example_globals,
          OF h]
    by (simp add: eval_defs)
qed

lemma fst_on_model_save:
  "fst (on_model_save e g mp) =
     fst (prune_phase e g (fst (path_split mp)) mp) @
     (case snd (prune_phase e g (fst (path_split mp)) mp) of
        Some x \<Rightarrow> []
      | None \<Rightarrow> fst (upload_phase e g mp (snd (path_split mp))
                       (snd (path_split (fst (path_split mp))))))"
  by (simp add: on_model_save_def Let_def fst_after split: prod.splits option.splits)

section \<open>The test for the current checkpoint is a suffix test\<close>

text \<open>
  Claim C9, amended. With deletion enabled, a listing that \<^verbatim>\<open>os.listdir\<close> returns and
  removals that raise nothing but \<^verbatim>\<open>OSError\<close>, a model file of the directory is spared
  exactly when the saved path ends with its name. So a file other than the saved one is
  spared for some inputs: any model file whose name is a proper suffix of the saved file's
  name, as \<^verbatim>\<open>model_20.pt\<close> is of \<^verbatim>\<open>best_model_20.pt\<close>.
\<close>

theorem skip_test_is_suffix_test:
  assumes "\<And>p x. os_remove e p = Some x \<Longrightarrow> \<exists>msg. x = OSError msg"
    and "truthy (delete_old_models g)"
    and "os_listdir e (fst (path_split model_path)) = Inr names"
    and "i \<in> set names" and "model_file i"
  shows "(Remove (fst (path_split model_path) @ ''/'' @ i)
            \<in> set (fst (on_model_save e g model_path)) \<longleftrightarrow> \<not> endswith model_path i) \<and>
         (\<exists>p j. model_file j \<and> j \<noteq> snd (path_split p) \<and> endswith p j)"
proof
  let ?fp = "fst (path_split model_path)"
  show "Remove (?fp @ ''/'' @ i) \<in> set (fst (on_model_save e g model_path))
          \<longleftrightarrow> \<not> endswith model_path i"
  proof
    assume "Remove (?fp @ ''/'' @ i) \<in> set (fst (on_model_save e g model_path))"
    from on_model_save_Remove [OF this] show "\<not> endswith model_path i"
      by auto
  next
    assume "\<not> endswith model_path i"
    with assms(4,5) have "?fp @ ''/'' @ i
        \<in> set (removed (fst (prune_loop e ?fp model_path names)))"
      by (simp add: prune_loop_removed [OF assms(1)])
    then have "Remove (?fp @ ''/'' @ i) \<in> set (fst (prune_phase e g ?fp model_path))"
      using assms(2,3) by (simp add: prune_phase_def fst_after Remove_in_removed)
    then show "Remove (?fp @ ''/'' @ i) \<in> set (fst (on_model_save e g model_path))"
      by (simp add: fst_on_model_save)
  qed
  have "model_file ''model_20.pt'' \<and>
        ''model_20.pt'' \<noteq> snd (path_split ''models/default/best_model_20.pt'') \<and>
        endswith ''models/default/best_model_20.pt'' ''model_20.pt''"
    by (simp add: model_file_def endswith_def path_split_def)
  then show "\<exists>p j. model_file j \<and> j \<noteq> snd (path_split p) \<and> endswith p j"
    by blast
qed

theorem skip_test_is_suffix_test_witness:
  "endswith ''models/default/best_model_20.pt'' ''model_20.pt'' \<and>
   on_model_save (example_env\<lparr>os_listdir := (\<lambda>d. Inr [''model_20.pt'', ''best_model_20.pt''])\<rparr>)
       example_globals ''models/default/best_model_20.pt'' =
     ([Listdir ''models/default'',
       Print ''Skipping delete of model_20.pt (current epoch)'',
       Print ''Skipping delete of best_model_20.pt (not model file)''],
      Some (AttributeError ''groups'')) \<and>
   Remove ''models/default/model_20.pt'' \<notin> set (fst (on_model_save
       (example_env\<lparr>os_listdir := (\<lambda>d. Inr [''model_20.pt'', ''best_model_20.pt''])\<rparr>)
       example_globals ''models/default/best_model_20.pt''))"
proof -
  let ?e = "example_env\<lparr>os_listdir := (\<lambda>d. Inr [''model_20.pt'', ''best_model_20.pt''])\<rparr>"
  have h: "\<And>p x. os_remove ?e p = Some x \<Longrightarrow> \<exists>msg. x = OSError msg"
    by (simp add: example_env_def)
  have d: "truthy (delete_old_models example_globals)"
    by (simp add: example_globals_def)
  have l: "os_listdir ?e (fst (path_split ''models/default/best_model_20.pt''))
             = Inr [''model_20.pt'', ''best_model_20.pt'']"
    by simp
  have i: "''model_20.pt'' \<in> set [''model_20.pt'', ''best_model_20.pt'']"
    by simp
  have m: "model_file ''model_20.pt''"
    by (simp add: model_file_def endswith_def)
  show ?thesis
    using skip_test_is_suffix_test [of ?e example_globals, OF h d l i m]
    by (simp add: eval_defs)
qed

text \<open>
  The example of the claim as it was stated does not hold: \<^verbatim>\<open>model_20.pt\<close> is not a suffix
  of a path ending in \<^verbatim>\<open>model_120.pt\<close>, and it is removed.
\<close>

theorem suffix_skip_counterexample:
  "\<not> endswith ''models/default/model_120.pt'' ''model_20.pt'' \<and>
   on_model_save (example_env\<lparr>os_listdir := (\<lambda>d. Inr [''model_20.pt'', ''model_120.pt''])\<rparr>)
       example_globals ''models/default/model_120.pt'' =
     ([Listdir ''models/default'',
       Print ''Deleting model_20.pt'', Remove ''models/default/model_20.pt'',
       Print ''Skipping delete of model_120.pt (current epoch)'',
       GetBlobClient ''default/model_120.pt'', Print ''Uploading to default/model_120.pt'',
       Open ''models/default/model_120.pt'',
       UploadBlob ''default/model_120.pt'' ''models/default/model_120.pt''], None)"
  by (simp add: eval_defs)

text \<open>
  A saved file named \<^verbatim>\<open>model_<n>.pt\<close> spares no entry but itself: a directory entry (a
  name without a slash) that starts with \<^verbatim>\<open>model_\<close> and that the saved path ends with is
  the saved file's name.
\<close>

lemma endswith_file_name_of_entry:
  assumes "CHR ''/'' \<notin> set i" and "endswith p i"
  shows "endswith (snd (path_split p)) i"
proof -
  from assms(2) obtain t where p: "p = t @ i"
    by (auto simp: endswith_iff)
  have "takeWhile (\<lambda>c. c \<noteq> CHR ''/'') (rev i @ rev t)
          = rev i @ takeWhile (\<lambda>c. c \<noteq> CHR ''/'') (rev t)"
    using assms(1) by (intro takeWhile_append2) auto
  then have "snd (path_split p) = rev (takeWhile (\<lambda>c. c \<noteq> CHR ''/'') (rev t)) @ i"
    by (simp add: path_split_def p Let_def)
  then show ?thesis
    by (simp add: endswith_append)
qed

lemma checkpoint_name_suffix:
  assumes "list_all is_digit ds" and "startswith i ''model_''"
    and "endswith (''model_'' @ ds @ ''.pt'') i"
  shows "i = ''model_'' @ ds @ ''.pt''"
proof -
  from assms(2) obtain t where i: "i = ''model_'' @ t"
    by (auto simp: startswith_iff)
  from assms(3) obtain s where s: "''model_'' @ ds @ ''.pt'' = s @ i"
    by (auto simp: endswith_iff)
  have nd: "\<not> is_digit CHR ''m''"
    by (simp add: is_digit_def)
  have m: "CHR ''m'' \<notin> set (''odel_'' @ ds @ ''.pt'')"
    using assms(1) nd by (auto simp: list_all_iff)
  show ?thesis
  proof (cases s)
    case Nil
    with s show ?thesis by simp
  next
    case (Cons c s')
    with s i have "''odel_'' @ ds @ ''.pt'' = s' @ ''model_'' @ t"
      by simp
    then have "CHR ''m'' \<in> set (''odel_'' @ ds @ ''.pt'')"
      by (metis append_Cons in_set_conv_decomp)
    with m show ?thesis by contradiction
  qed
qed

lemma well_formed_save_spares_itself_only:
  assumes "snd (path_split model_path) = ''model_'' @ ds @ ''.pt''" and "list_all is_digit ds"
    and "CHR ''/'' \<notin> set i" and "startswith i ''model_''" and "endswith model_path i"
  shows "i = snd (path_split model_path)"
  using checkpoint_name_suffix [OF assms(2,4)]
    endswith_file_name_of_entry [OF assms(3,5)] assms(1)
  by simp

section \<open>The upload gate\<close>

lemma uploads_prune_loop: "uploads (fst (prune_loop e fp mp names)) = []"
  by (induction names) (auto simp: fst_after split: option.splits exn.splits)

lemma uploads_prune_phase: "uploads (fst (prune_phase e g fp mp)) = []"
  by (simp add: prune_phase_def fst_after uploads_prune_loop split: sum.splits)

lemma not_digit_dot: "\<not> is_digit CHR ''.''"
  by (simp add: is_digit_def)

lemma backtrack_full:
  "ds \<noteq> [] \<Longrightarrow> backtrack (length ds) (ds @ ''.pt'') = Some ds"
  by (cases "length ds") (simp_all add: tail_matches_def)

lemma re_match_checkpoint:
  assumes "ds \<noteq> []" and "list_all is_digit ds"
  shows "re_match (''model_'' @ ds @ ''.pt'') = Some ds"
proof -
  have "takeWhile is_digit (ds @ ''.pt'') = ds"
    using assms(2) by (simp add: list_all_iff not_digit_dot)
  then show ?thesis
    using assms(1) by (simp add: re_match_def backtrack_full)
qed

lemma uploads_on_model_save:
  "uploads (fst (on_model_save e g mp)) =
     (case snd (prune_phase e g (fst (path_split mp)) mp) of
        Some x \<Rightarrow> []
      | None \<Rightarrow> uploads (fst (upload_phase e g mp (snd (path_split mp))
                       (snd (path_split (fst (path_split mp)))))))"
  by (simp add: fst_on_model_save uploads_append uploads_prune_phase split: option.splits)

text \<open>
  The gate of line 56 in a callback that has what it needs. With uploading enabled, an
  integer upload interval \<open>k\<close> and a saved file named \<^verbatim>\<open>model_<n>.pt\<close> (\<open>n\<close> written with
  the digits \<open>ds\<close>): when \<open>k\<close> does not divide \<open>n\<close>, no upload call is made; when \<open>k\<close> is
  not zero and divides \<open>n\<close>, a container client is set, pruning raised nothing and the
  checkpoint file opens, exactly one upload call is made, of the saved file to
  \<^verbatim>\<open><model_name>/<file_name>\<close>.
\<close>

lemma upload_gate:
  assumes "truthy (upload_models g)" and "upload_every g = PInt k"
    and "snd (path_split model_path) = ''model_'' @ ds @ ''.pt''"
    and "ds \<noteq> []" and "list_all is_digit ds"
  shows "(\<not> k dvd py_int ds \<longrightarrow> uploads (fst (on_model_save e g model_path)) = []) \<and>
         (k dvd py_int ds \<and> k \<noteq> 0 \<and> container_client g \<noteq> None \<and>
          snd (prune_phase e g (fst (path_split model_path)) model_path) = None \<and>
          open_rb e model_path = None \<longrightarrow>
            uploads (fst (on_model_save e g model_path)) =
              [(snd (path_split (fst (path_split model_path))) @ ''/'' @
                  snd (path_split model_path), model_path)])"
proof -
  have m: "re_match (snd (path_split model_path)) = Some ds"
    using re_match_checkpoint [OF assms(4,5)] assms(3) by simp
  have z: "mod_is_zero e (py_int ds) (upload_every g) =
             (if k = 0 then Inl ZeroDivisionError else Inr (k dvd py_int ds))"
    using assms(2) by (simp add: mod_eq_0_iff_dvd)
  show ?thesis
    using assms(1) m z
    by (auto simp: uploads_on_model_save upload_phase_def fst_after Let_def
        split: option.splits)
qed

lemma upload_gate_example:
  "uploads (fst (on_model_save example_env example_globals ''models/default/model_20.pt''))
     = [(''default/model_20.pt'', ''models/default/model_20.pt'')] \<and>
   (10::int) dvd py_int ''20'' \<and>
   uploads (fst (on_model_save example_env example_globals ''models/default/model_19.pt''))
     = [] \<and>
   \<not> (10::int) dvd py_int ''19''"
proof -
  have a: "truthy (upload_models example_globals)"
    and b: "upload_every example_globals = PInt 10"
    by (simp_all add: example_globals_def)
  have c: "snd (path_split ''models/default/model_20.pt'') = ''model_'' @ ''20'' @ ''.pt''"
    and c': "snd (path_split ''models/default/model_19.pt'') = ''model_'' @ ''19'' @ ''.pt''"
    by (simp_all add: path_split_def)
  have d: "''20'' \<noteq> []" "''19'' \<noteq> []" by simp_all
  have f: "list_all is_digit ''20''" "list_all is_digit ''19''"
    by (simp_all add: is_digit_def)
  show ?thesis
    using upload_gate [OF a b c d(1) f(1), of example_env]
      upload_gate [OF a b c' d(2) f(2), of example_env]
    by (simp add: eval_defs)
qed

text \<open>
  The example of the spec, with a container client set: saving \<^verbatim>\<open>model_20.pt\<close> with an
  interval of 10 removes the other twenty-nine checkpoints and uploads \<^verbatim>\<open>model_20.pt\<close> only.
\<close>

lemma spec_example:
  "removed (fst (on_model_save spec_example_env example_globals ''models/default/model_20.pt'')) =
     [''models/default/model_00.pt'', ''models/default/model_01.pt'', ''models/default/model_02.pt'',
      ''models/default/model_03.pt'', ''models/default/model_04.pt'', ''models/default/model_05.pt'',
      ''models/default/model_06.pt'', ''models/default/model_07.pt'', ''models/default/model_08.pt'',
      ''models/default/model_09.pt'', ''models/default/model_10.pt'', ''models/default/model_11.pt'',
      ''models/default/model_12.pt'', ''models/default/model_13.pt'', ''models/default/model_14.pt'',
      ''models/default/model_15.pt'', ''models/default/model_16.pt'', ''models/default/model_17.pt'',
      ''models/default/model_18.pt'', ''models/default/model_19.pt'', ''models/default/model_21.pt'',
      ''models/default/model_22.pt'', ''models/default/model_23.pt'', ''models/default/model_24.pt'',
      ''models/default/model_25.pt'', ''models/default/model_26.pt'', ''models/default/model_27.pt'',
      ''models/default/model_28.pt'', ''models/default/model_29.pt''] \<and>
   uploads (fst (on_model_save spec_example_env example_globals ''models/default/model_20.pt'')) =
     [(''default/model_20.pt'', ''models/default/model_20.pt'')] \<and>
   snd (on_model_save spec_example_env example_globals ''models/default/model_20.pt'') = None"
  by (simp add: eval_defs spec_example_env_def)

text \<open>
  Claim C7. With uploading enabled, a file name that \<^verbatim>\<open>re.match\<close> rejects makes
  \<^verbatim>\<open>on_model_save\<close> end with an exception (the attribute error of \<^verbatim>\<open>None.groups\<close>, when
  pruning raised nothing). The other failures of the upload leave the callback as well:
  the error of the modulus, the attribute error of a container client that is \<^verbatim>\<open>None\<close>,
  what \<^verbatim>\<open>open\<close> raises and what \<^verbatim>\<open>upload_blob\<close> raises.
\<close>

theorem upload_errors_propagate:
  assumes "truthy (upload_models g)"
  shows "(re_match (snd (path_split model_path)) = None \<longrightarrow>
            snd (on_model_save e g model_path) \<noteq> None \<and>
            (snd (prune_phase e g (fst (path_split model_path)) model_path) = None \<longrightarrow>
               snd (on_model_save e g model_path) = Some (AttributeError ''groups''))) \<and>
         (snd (prune_phase e g (fst (path_split model_path)) model_path) = None \<longrightarrow>
           (\<forall>grp. re_match (snd (path_split model_path)) = Some grp \<longrightarrow>
            (\<forall>x. mod_is_zero e (py_int grp) (upload_every g) = Inl x \<longrightarrow>
                 snd (on_model_save e g model_path) = Some x) \<and>
            (mod_is_zero e (py_int grp) (upload_every g) = Inr True \<longrightarrow>
               (container_client g = None \<longrightarrow>
                  snd (on_model_save e g model_path) = Some (AttributeError ''get_blob_client'')) \<and>
               (container_client g \<noteq> None \<longrightarrow>
                  (\<forall>x. open_rb e model_path = Some x \<longrightarrow>
                     snd (on_model_save e g model_path) = Some x) \<and>
                  (open_rb e model_path = None \<longrightarrow>
                     snd (on_model_save e g model_path) =
                       upload_blob e (snd (path_split (fst (path_split model_path))) @ ''/'' @
                                      snd (path_split model_path)) model_path)))))"
  using assms
  by (auto simp: snd_on_model_save upload_phase_def snd_after Let_def split: option.splits)

theorem upload_errors_propagate_witness:
  "re_match ''model_final.pt'' = None \<and>
   on_model_save example_env example_globals ''models/default/model_final.pt'' =
     ([Listdir ''models/default'',
       Print ''Deleting model_18.pt'', Remove ''models/default/model_18.pt'',
       Print ''Deleting model_19.pt'', Remove ''models/default/model_19.pt'',
       Print ''Deleting model_20.pt'', Remove ''models/default/model_20.pt'',
       Print ''Skipping delete of notes.txt (not model file)''],
      Some (AttributeError ''groups'')) \<and>
   snd (on_model_save example_env first_run_globals ''models/default/model_20.pt'') =
     Some (AttributeError ''get_blob_client'') \<and>
   snd (on_model_save (example_env\<lparr>upload_blob := (\<lambda>d p. Some (OtherError ''ResourceExistsError''))\<rparr>)
          example_globals ''models/default/model_20.pt'') =
     Some (OtherError ''ResourceExistsError'')"
proof -
  have a: "truthy (upload_models example_globals)"
    by (simp add: example_globals_def)
  show ?thesis
    using upload_errors_propagate [OF a, of "''models/default/model_final.pt''" example_env]
    by (simp add: eval_defs)
qed

section \<open>The retried training step\<close>

lemma retry_train_unfold:
  "retry_train api m =
     (case train api m of
        (m1, None) \<Rightarrow> ([TrainCall], m1, None)
      | (m1, Some x) \<Rightarrow>
          if x = NanException
          then (case train api m1 of
                  (m2, None) \<Rightarrow> ([TrainCall, Sleep 0, TrainCall], m2, None)
                | (m2, Some y) \<Rightarrow>
                    if y = NanException
                    then (case train api m2 of
                            (m3, r) \<Rightarrow>
                              ([TrainCall, Sleep 0, TrainCall, Sleep 0, TrainCall], m3, r))
                    else ([TrainCall, Sleep 0, TrainCall], m2, Some y))
          else ([TrainCall], m1, Some x))"
  by (simp add: retry_train_def numeral_3_eq_3 split: prod.splits option.splits)

text \<open>
  Claim C4. One \<^verbatim>\<open>retry_call\<close> of line 132 calls \<^verbatim>\<open>train()\<close> at most three times and
  sleeps 0 seconds between attempts; a second attempt is made only after the first raised
  \<^verbatim>\<open>NanException\<close>, a third only after the second did; and when all three attempts raise
  \<^verbatim>\<open>NanException\<close>, it leaves \<^verbatim>\<open>retry_call\<close> and the training loop, which returns with it.
\<close>

theorem train_retried_on_nan:
  "attempts (fst (retry_train api m)) \<le> 3 \<and>
   (\<forall>d. Sleep d \<in> set (fst (retry_train api m)) \<longrightarrow> d = 0) \<and>
   (2 \<le> attempts (fst (retry_train api m)) \<longrightarrow> snd (train api m) = Some NanException) \<and>
   (3 \<le> attempts (fst (retry_train api m)) \<longrightarrow>
      snd (train api (fst (train api m))) = Some NanException) \<and>
   (snd (train api m) = Some NanException \<and>
    snd (train api (fst (train api m))) = Some NanException \<and>
    snd (train api (fst (train api (fst (train api m))))) = Some NanException \<longrightarrow>
      retry_train api m =
        ([TrainCall, Sleep 0, TrainCall, Sleep 0, TrainCall],
         fst (train api (fst (train api (fst (train api m))))), Some NanException) \<and>
      (steps api m < num_train_steps \<longrightarrow>
         training_loop api num_train_steps is_main acc m =
           Some (acc @ [TrainCall, Sleep 0, TrainCall, Sleep 0, TrainCall],
                 fst (train api (fst (train api (fst (train api m))))), Some NanException)))"
proof (intro conjI impI allI)
  show "attempts (fst (retry_train api m)) \<le> 3"
    by (simp add: retry_train_unfold attempts_def split: prod.splits option.splits)
  show "d = 0" if "Sleep d \<in> set (fst (retry_train api m))" for d
    using that by (auto simp: retry_train_unfold split: prod.splits option.splits if_splits)
  show "snd (train api m) = Some NanException" if "2 \<le> attempts (fst (retry_train api m))"
    using that
    by (auto simp: retry_train_unfold attempts_def split: prod.splits option.splits if_splits)
  show "snd (train api (fst (train api m))) = Some NanException"
    if "3 \<le> attempts (fst (retry_train api m))"
    using that
    by (auto simp: retry_train_unfold attempts_def split: prod.splits option.splits if_splits)
  assume h: "snd (train api m) = Some NanException \<and>
    snd (train api (fst (train api m))) = Some NanException \<and>
    snd (train api (fst (train api (fst (train api m))))) = Some NanException"
  then show r: "retry_train api m =
        ([TrainCall, Sleep 0, TrainCall, Sleep 0, TrainCall],
         fst (train api (fst (train api (fst (train api m))))), Some NanException)"
    by (auto simp: retry_train_unfold split: prod.splits option.splits)
  assume "steps api m < num_train_steps"
  then show "training_loop api num_train_steps is_main acc m =
           Some (acc @ [TrainCall, Sleep 0, TrainCall, Sleep 0, TrainCall],
                 fst (train api (fst (train api (fst (train api m))))), Some NanException)"
    by (subst training_loop.simps) (simp add: r)
qed

theorem train_retried_on_nan_witness:
  "training_loop (flaky_trainer 3) 10 True [] 0 =
     Some ([TrainCall, Sleep 0, TrainCall, Sleep 0, TrainCall], 3, Some NanException) \<and>
   attempts (fst (retry_train (flaky_trainer 1) 0)) = 2 \<and>
   snd (train (flaky_trainer 1) 0) = Some NanException"
proof -
  let ?api = "flaky_trainer 3"
  have h: "snd (train ?api 0) = Some NanException \<and>
    snd (train ?api (fst (train ?api 0))) = Some NanException \<and>
    snd (train ?api (fst (train ?api (fst (train ?api 0))))) = Some NanException"
    by (simp add: flaky_trainer_def)
  have s: "steps ?api 0 < 10"
    by (simp add: flaky_trainer_def)
  have "training_loop ?api 10 True [] 0 =
          Some ([] @ [TrainCall, Sleep 0, TrainCall, Sleep 0, TrainCall],
                fst (train ?api (fst (train ?api (fst (train ?api 0))))), Some NanException)"
    using train_retried_on_nan [of ?api 0 10 True "[]"] h s by blast
  moreover have "fst (train ?api (fst (train ?api (fst (train ?api 0))))) = 3"
    by (simp add: flaky_trainer_def)
  moreover have "attempts (fst (retry_train (flaky_trainer 1) 0)) = 2"
    by (simp add: flaky_trainer_def retry_train_unfold attempts_def)
  moreover have "snd (train (flaky_trainer 1) 0) = Some NanException"
    by (simp add: flaky_trainer_def)
  ultimately show ?thesis by simp
qed

section \<open>What \<^verbatim>\<open>run_training\<close> does to the dictionary and the globals\<close>

lemma pop_all_apply: "pop_all ks m k = (if k \<in> set ks then None else m k)"
  unfolding pop_all_def by (induction ks arbitrary: m) auto

lemma item_Inr: "item m k = Inr v \<longleftrightarrow> m k = Some v"
  by (simp add: item_def split: option.splits)

lemma connect_Inr:
  "connect se g m = Inr g1 \<Longrightarrow>
     delete_old_models g1 = delete_old_models g \<and> upload_models g1 = upload_models g \<and>
     upload_every g1 = upload_every g"
  by (auto simp: connect_def split: sum.splits option.splits)

lemma main_rank_setup_Inr:
  assumes "main_rank_setup se g m = Inr (g', m1)"
  shows "m1 = m(''save_callback'' \<mapsto> PFunc ''on_model_save'')"
    and "m ''upload_models'' = Some (upload_models g')"
    and "m ''upload_every'' = Some (upload_every g')"
    and "m ''delete_old_models'' = Some (delete_old_models g')"
    and "\<not> truthy (upload_models g) \<Longrightarrow>
           blob_service_client g' = blob_service_client g \<and>
           container_client g' = container_client g"
  using assms
  by (auto simp: main_rank_setup_def Let_def item_Inr split: sum.splits if_splits)

lemma run_training_args_Inr:
  assumes "run_training_args se g rank world_size m = Inr (g', m')"
  shows "m' = pop_all cloud_keys
                (if rank = 0
                 then m(''is_ddp'' \<mapsto> PBool (world_size > 1), ''rank'' \<mapsto> PInt rank,
                        ''world_size'' \<mapsto> PInt world_size,
                        ''save_callback'' \<mapsto> PFunc ''on_model_save'')
                 else m(''is_ddp'' \<mapsto> PBool (world_size > 1), ''rank'' \<mapsto> PInt rank,
                        ''world_size'' \<mapsto> PInt world_size))"
    and "rank \<noteq> 0 \<Longrightarrow> g' = g"
    and "rank = 0 \<Longrightarrow> m ''upload_models'' = Some (upload_models g') \<and>
           m ''upload_every'' = Some (upload_every g') \<and>
           m ''delete_old_models'' = Some (delete_old_models g')"
    and "\<not> truthy (upload_models g) \<Longrightarrow>
           blob_service_client g' = blob_service_client g \<and>
           container_client g' = container_client g"
proof -
  let ?m0 = "m(''is_ddp'' \<mapsto> PBool (world_size > 1), ''rank'' \<mapsto> PInt rank,
               ''world_size'' \<mapsto> PInt world_size)"
  obtain m1 where r: "(if rank = 0 then main_rank_setup se g ?m0 else Inr (g, ?m0)) = Inr (g', m1)"
    and m': "m' = pop_all cloud_keys m1"
    using assms
    by (auto simp: run_training_args_def Let_def split: option.splits sum.splits)
  show "m' = pop_all cloud_keys
                (if rank = 0
                 then ?m0(''save_callback'' \<mapsto> PFunc ''on_model_save'')
                 else ?m0)"
    using r m' main_rank_setup_Inr(1) [of se g ?m0 g' m1]
    by (auto split: if_splits)
  show "g' = g" if "rank \<noteq> 0"
    using r that by simp
  show "m ''upload_models'' = Some (upload_models g') \<and>
           m ''upload_every'' = Some (upload_every g') \<and>
           m ''delete_old_models'' = Some (delete_old_models g')" if "rank = 0"
    using r that main_rank_setup_Inr(2-4) [of se g ?m0 g' m1]
    by simp
  show "blob_service_client g' = blob_service_client g \<and>
           container_client g' = container_client g" if "\<not> truthy (upload_models g)"
    using r that main_rank_setup_Inr(5) [of se g ?m0 g' m1]
    by (auto split: if_splits)
qed

text \<open>
  Claim C10. When \<^verbatim>\<open>run_training\<close> reaches the construction of the trainer, the keyword
  arguments hold none of the six cloud keys, on any rank. On a rank other than 0 the
  globals and the \<^verbatim>\<open>save_callback\<close> entry are as they were; on rank 0 the entry is
  \<^verbatim>\<open>on_model_save\<close> and the three option globals hold the values of the dictionary.
  \<^verbatim>\<open>is_ddp\<close>, \<^verbatim>\<open>rank\<close> and \<^verbatim>\<open>world_size\<close> are set, and every other entry is unchanged.
\<close>

theorem cloud_keys_popped_globals_set_on_rank_0:
  assumes "run_training_args se g rank world_size m = Inr (g', m')"
  shows "(\<forall>k \<in> set cloud_keys. m' k = None) \<and>
         (rank \<noteq> 0 \<longrightarrow> g' = g \<and> m' ''save_callback'' = m ''save_callback'') \<and>
         (rank = 0 \<longrightarrow>
            m' ''save_callback'' = Some (PFunc ''on_model_save'') \<and>
            m ''upload_models'' = Some (upload_models g') \<and>
            m ''upload_every'' = Some (upload_every g') \<and>
            m ''delete_old_models'' = Some (delete_old_models g')) \<and>
         m' ''is_ddp'' = Some (PBool (world_size > 1)) \<and>
         m' ''rank'' = Some (PInt rank) \<and>
         m' ''world_size'' = Some (PInt world_size) \<and>
         (\<forall>k. k \<notin> set cloud_keys \<and> k \<noteq> ''is_ddp'' \<and> k \<noteq> ''rank'' \<and> k \<noteq> ''world_size'' \<and>
              k \<noteq> ''save_callback'' \<longrightarrow> m' k = m k)"
  using run_training_args_Inr [OF assms]
  by (simp add: pop_all_apply cloud_keys_def)

text \<open>
  The set-up does reach the trainer: on a rank other than 0 whenever the process group
  starts, and on rank 0 when, besides, the global \<^verbatim>\<open>_upload_models\<close> is false and the
  dictionary holds the three options.
\<close>

lemma run_training_args_total:
  assumes "world_size > 1 \<Longrightarrow> init_process_group se rank world_size = None"
    and "rank = 0 \<Longrightarrow> \<not> truthy (upload_models g) \<and> m ''upload_models'' \<noteq> None \<and>
           m ''upload_every'' \<noteq> None \<and> m ''delete_old_models'' \<noteq> None"
  shows "\<exists>g' m'. run_training_args se g rank world_size m = Inr (g', m')"
  using assms
  by (auto simp: run_training_args_def main_rank_setup_def item_def Let_def
      split: option.splits sum.splits)

text \<open>
  From the initial globals, whatever the options: line 105 reads \<^verbatim>\<open>_upload_models\<close> before
  line 110 assigns it, so the first \<^verbatim>\<open>run_training\<close> of a process builds no client.
\<close>

lemma first_run_leaves_no_client:
  assumes "run_training_args se initial_globals rank world_size m = Inr (g', m')"
  shows "container_client g' = None \<and> blob_service_client g' = None"
  using run_training_args_Inr(4) [OF assms]
  by (simp add: initial_globals_def)

lemma model_args_cloud:
  "model_args p ''upload_models'' = Some (p ''upload_models'')"
  "model_args p ''upload_every'' = Some (p ''upload_every'')"
  "model_args p ''delete_old_models'' = Some (p ''delete_old_models'')"
  "model_args p ''save_callback'' = Some (p ''save_callback'')"
  "model_args p ''is_ddp'' = None"
  "model_args p ''rank'' = None"
  "model_args p ''world_size'' = None"
  by (simp_all add: model_args_def)

lemma default_run:
  "run_training_args example_setup_env initial_globals 0 1 (model_args (params Map.empty))
     = Inr (first_run_globals,
            pop_all cloud_keys
              ((model_args (params Map.empty))
                 (''is_ddp'' \<mapsto> PBool False, ''rank'' \<mapsto> PInt 0, ''world_size'' \<mapsto> PInt 1,
                  ''save_callback'' \<mapsto> PFunc ''on_model_save'')))"
  by (simp add: run_training_args_def main_rank_setup_def item_def Let_def initial_globals_def
      first_run_globals_def model_args_cloud params_def defaults_def)

theorem cloud_keys_popped_globals_set_on_rank_0_witness:
  "run_training_args example_setup_env initial_globals 0 1 (model_args (params Map.empty))
     = Inr (first_run_globals,
            pop_all cloud_keys
              ((model_args (params Map.empty))
                 (''is_ddp'' \<mapsto> PBool False, ''rank'' \<mapsto> PInt 0, ''world_size'' \<mapsto> PInt 1,
                  ''save_callback'' \<mapsto> PFunc ''on_model_save''))) \<and>
   model_args (params Map.empty) ''upload_every'' = Some (upload_every first_run_globals) \<and>
   pop_all cloud_keys
     ((model_args (params Map.empty))
        (''is_ddp'' \<mapsto> PBool False, ''rank'' \<mapsto> PInt 0, ''world_size'' \<mapsto> PInt 1,
         ''save_callback'' \<mapsto> PFunc ''on_model_save'')) ''upload_every'' = None"
  using cloud_keys_popped_globals_set_on_rank_0 [OF default_run]
  by (simp add: default_run cloud_keys_def)

lemma dom_pop_all: "dom (pop_all ks m) = dom m - set ks"
  by (auto simp: dom_def pop_all_apply)

section \<open>The first run of a process builds no client and uploads nothing\<close>

text \<open>Without a container client no upload call is made.\<close>

lemma no_client_no_upload:
  assumes "container_client g = None"
  shows "uploads (fst (on_model_save e g model_path)) = []"
  using assms
  by (auto simp: uploads_on_model_save upload_phase_def Let_def
      split: option.splits sum.splits bool.splits)

text \<open>
  Claim C1. The claim has every checkpoint whose number the interval divides uploaded.
  The code misses it: line 105 reads \<^verbatim>\<open>_upload_models\<close> before line 110 assigns it, so
  the globals a first \<^verbatim>\<open>run_training\<close> leaves hold no container client, whatever the
  options, rank and world size. The callback then makes no upload call for any path, and
  where an upload is due (uploading enabled, a file name the pattern accepts, a number
  the interval divides) it ends with the attribute error of line 58.
\<close>

theorem first_run_never_uploads:
  assumes "run_training_args se initial_globals rank world_size m = Inr (g', m')"
  shows "uploads (fst (on_model_save e g' model_path)) = [] \<and>
         (\<forall>grp. truthy (upload_models g') \<and>
            snd (prune_phase e g' (fst (path_split model_path)) model_path) = None \<and>
            re_match (snd (path_split model_path)) = Some grp \<and>
            mod_is_zero e (py_int grp) (upload_every g') = Inr True \<longrightarrow>
              snd (on_model_save e g' model_path) = Some (AttributeError ''get_blob_client''))"
proof -
  have c: "container_client g' = None"
    using first_run_leaves_no_client [OF assms] by simp
  show ?thesis
    using c no_client_no_upload [OF c, of e model_path]
    by (auto simp: snd_on_model_save upload_phase_def Let_def)
qed

theorem first_run_never_uploads_witness:
  "run_training_args example_setup_env initial_globals 0 1 (model_args (params Map.empty))
     = Inr (first_run_globals,
            pop_all cloud_keys
              ((model_args (params Map.empty))
                 (''is_ddp'' \<mapsto> PBool False, ''rank'' \<mapsto> PInt 0, ''world_size'' \<mapsto> PInt 1,
                  ''save_callback'' \<mapsto> PFunc ''on_model_save''))) \<and>
   upload_models first_run_globals = PBool True \<and>
   upload_every first_run_globals = PInt 10 \<and>
   re_match ''model_20.pt'' = Some ''20'' \<and>
   (10::int) dvd py_int ''20'' \<and>
   on_model_save example_env first_run_globals ''models/default/model_20.pt'' =
     ([Listdir ''models/default'',
       Print ''Deleting model_18.pt'', Remove ''models/default/model_18.pt'',
       Print ''Deleting model_19.pt'', Remove ''models/default/model_19.pt'',
       Print ''Skipping delete of model_20.pt (current epoch)'',
       Print ''Skipping delete of notes.txt (not model file)''],
      Some (AttributeError ''get_blob_client'')) \<and>
   uploads (fst (on_model_save example_env first_run_globals ''models/default/model_20.pt'')) = []"
proof -
  have e: "on_model_save example_env first_run_globals ''models/default/model_20.pt'' =
     ([Listdir ''models/default'',
       Print ''Deleting model_18.pt'', Remove ''models/default/model_18.pt'',
       Print ''Deleting model_19.pt'', Remove ''models/default/model_19.pt'',
       Print ''Skipping delete of model_20.pt (current epoch)'',
       Print ''Skipping delete of notes.txt (not model file)''],
      Some (AttributeError ''get_blob_client''))"
    by (simp add: eval_defs)
  have u: "uploads (fst (on_model_save example_env first_run_globals
                           ''models/default/model_20.pt'')) = []"
    using first_run_never_uploads [OF default_run, of example_env "''models/default/model_20.pt''"]
    by blast
  have r: "re_match ''model_20.pt'' = Some ''20''" "(10::int) dvd py_int ''20''"
    by (simp_all add: eval_defs)
  show ?thesis
    using e u r by (simp add: default_run first_run_globals_def)
qed

section \<open>The dictionary between \<^verbatim>\<open>train_from_folder\<close> and the trainer\<close>

text \<open>
  Claim C5, amended. The dictionary is built once, from the parameters. The generation
  modes pass it to the trainer as built, and every \<^verbatim>\<open>run_training\<close> call receives it. Before
  it builds the trainer, \<^verbatim>\<open>run_training\<close> changes it: the keys are those built, less
  the six cloud keys, plus \<^verbatim>\<open>is_ddp\<close>, \<^verbatim>\<open>rank\<close> and \<^verbatim>\<open>world_size\<close>; \<^verbatim>\<open>save_callback\<close> is
  \<^verbatim>\<open>on_model_save\<close> on rank 0 and as built elsewhere; every other key that stays has the
  value it was built with.
\<close>

theorem model_args_reaches_trainer:
  "(\<forall>kw. generation_kwargs (train_from_folder p device_count) = Some kw \<longrightarrow>
        kw = model_args p) \<and>
   (\<forall>r ws m. (r, ws, m) \<in> set (run_training_calls (train_from_folder p device_count)) \<longrightarrow>
        m = model_args p) \<and>
   (\<forall>g' m'. run_training_args se g rank world_size (model_args p) = Inr (g', m') \<longrightarrow>
        dom m' = (dom (model_args p) - set cloud_keys) \<union> {''is_ddp'', ''rank'', ''world_size''} \<and>
        m' ''is_ddp'' = Some (PBool (world_size > 1)) \<and>
        m' ''rank'' = Some (PInt rank) \<and>
        m' ''world_size'' = Some (PInt world_size) \<and>
        m' ''save_callback'' =
          Some (if rank = 0 then PFunc ''on_model_save'' else p ''save_callback'') \<and>
        (\<forall>k. k \<in> dom (model_args p) - set cloud_keys \<and> k \<noteq> ''save_callback'' \<longrightarrow>
             m' k = model_args p k))"
proof (intro conjI allI impI)
  fix kw
  assume "generation_kwargs (train_from_folder p device_count) = Some kw"
  then show "kw = model_args p"
    by (auto simp: train_from_folder_def Let_def split: if_splits)
next
  fix r ws m
  assume "(r, ws, m) \<in> set (run_training_calls (train_from_folder p device_count))"
  then show "m = model_args p"
    by (auto simp: train_from_folder_def Let_def split: if_splits)
next
  fix g' m'
  assume a: "run_training_args se g rank world_size (model_args p) = Inr (g', m')"
  note m' = run_training_args_Inr(1) [OF a]
  have sc: "''save_callback'' \<in> dom (model_args p)"
    by (simp add: dom_def model_args_cloud)
  have nk: "''is_ddp'' \<notin> set cloud_keys" "''rank'' \<notin> set cloud_keys"
    "''world_size'' \<notin> set cloud_keys" "''save_callback'' \<notin> set cloud_keys"
    by (simp_all add: cloud_keys_def)
  have "dom m' = insert ''is_ddp'' (insert ''rank'' (insert ''world_size''
                   (insert ''save_callback'' (dom (model_args p))))) - set cloud_keys"
  proof (cases "rank = 0")
    case True
    then show ?thesis by (simp add: m' dom_pop_all insert_commute)
  next
    case False
    then show ?thesis by (simp add: m' dom_pop_all insert_absorb [OF sc] insert_commute)
  qed
  then show "dom m' =
      (dom (model_args p) - set cloud_keys) \<union> {''is_ddp'', ''rank'', ''world_size''}"
    using sc nk by blast
  show "m' ''is_ddp'' = Some (PBool (world_size > 1))"
    and "m' ''rank'' = Some (PInt rank)"
    and "m' ''world_size'' = Some (PInt world_size)"
    by (simp_all add: m' pop_all_apply cloud_keys_def)
  show "m' ''save_callback'' =
          Some (if rank = 0 then PFunc ''on_model_save'' else p ''save_callback'')"
    by (simp add: m' pop_all_apply cloud_keys_def model_args_cloud)
  fix k
  assume k: "k \<in> dom (model_args p) - set cloud_keys \<and> k \<noteq> ''save_callback''"
  then have "k \<noteq> ''is_ddp''" "k \<noteq> ''rank''" "k \<noteq> ''world_size''"
    using model_args_cloud(5-7) [of p] by auto
  with k show "m' k = model_args p k"
    by (simp add: m' pop_all_apply)
qed

theorem model_args_reaches_trainer_witness:
  "generation_kwargs (train_from_folder (params [''generate'' \<mapsto> PBool True]) 1) =
     Some (model_args (params [''generate'' \<mapsto> PBool True])) \<and>
   run_training_calls (train_from_folder (params Map.empty) 1) =
     [(0, 1, model_args (params Map.empty))] \<and>
   run_training_args example_setup_env initial_globals 0 1 (model_args (params Map.empty))
     = Inr (first_run_globals,
            pop_all cloud_keys
              ((model_args (params Map.empty))
                 (''is_ddp'' \<mapsto> PBool False, ''rank'' \<mapsto> PInt 0, ''world_size'' \<mapsto> PInt 1,
                  ''save_callback'' \<mapsto> PFunc ''on_model_save''))) \<and>
   pop_all cloud_keys
     ((model_args (params Map.empty))
        (''is_ddp'' \<mapsto> PBool False, ''rank'' \<mapsto> PInt 0, ''world_size'' \<mapsto> PInt 1,
         ''save_callback'' \<mapsto> PFunc ''on_model_save'')) ''save_callback''
     = Some (PFunc ''on_model_save'')"
proof -
  have g: "generation_kwargs (train_from_folder (params [''generate'' \<mapsto> PBool True]) 1) =
     Some (model_args (params [''generate'' \<mapsto> PBool True]))"
    by (simp add: train_from_folder_def params_def)
  have t: "run_training_calls (train_from_folder (params Map.empty) 1) =
     [(0, 1, model_args (params Map.empty))]"
    by (simp add: train_from_folder_def params_def defaults_def)
  show ?thesis
    using model_args_reaches_trainer
      [of "params Map.empty" 1 example_setup_env initial_globals 0 1] default_run g t
    by simp
qed

text \<open>
  The claim as it was stated fails on a default run: between its construction and the
  trainer the dictionary loses \<^verbatim>\<open>upload_models\<close>, gains \<^verbatim>\<open>rank\<close> and has its
  \<^verbatim>\<open>save_callback\<close> overwritten.
\<close>

theorem model_args_mutated_counterexample:
  "train_from_folder (params Map.empty) 1 = TrainHere 0 1 (model_args (params Map.empty)) \<and>
   \<not> isl (run_training_args example_setup_env initial_globals 0 1
            (model_args (params Map.empty))) \<and>
   model_args (params Map.empty) ''upload_models'' = Some (PBool True) \<and>
   snd (projr (run_training_args example_setup_env initial_globals 0 1
                 (model_args (params Map.empty)))) ''upload_models'' = None \<and>
   model_args (params Map.empty) ''rank'' = None \<and>
   snd (projr (run_training_args example_setup_env initial_globals 0 1
                 (model_args (params Map.empty)))) ''rank'' = Some (PInt 0) \<and>
   model_args (params Map.empty) ''save_callback'' = Some PNone \<and>
   snd (projr (run_training_args example_setup_env initial_globals 0 1
                 (model_args (params Map.empty)))) ''save_callback''
     = Some (PFunc ''on_model_save'')"
  by (simp add: default_run pop_all_apply cloud_keys_def model_args_cloud
      train_from_folder_def params_def defaults_def)

section \<open>The training dispatch\<close>

text \<open>
  Claim C8. When neither generation mode is asked for: with one device, or with
  \<^verbatim>\<open>multi_gpus\<close> false, \<^verbatim>\<open>run_training\<close> is called once in the current process with rank 0
  and world size 1; otherwise \<^verbatim>\<open>mp.spawn\<close> gets as many processes as there are devices,
  and process \<open>i\<close> calls \<^verbatim>\<open>run_training\<close> with rank \<open>i\<close> and the device count as
  world size.
\<close>

theorem training_dispatch:
  assumes "\<not> truthy (p ''generate'')" and "\<not> truthy (p ''generate_interpolation'')"
  shows "(device_count = 1 \<or> \<not> truthy (p ''multi_gpus'') \<longrightarrow>
            train_from_folder p device_count = TrainHere 0 1 (model_args p) \<and>
            run_training_calls (train_from_folder p device_count) = [(0, 1, model_args p)]) \<and>
         (device_count \<noteq> 1 \<and> truthy (p ''multi_gpus'') \<longrightarrow>
            train_from_folder p device_count =
              Spawn device_count (int device_count) (model_args p) \<and>
            length (run_training_calls (train_from_folder p device_count)) = device_count \<and>
            (\<forall>i < device_count.
               run_training_calls (train_from_folder p device_count) ! i =
                 (int i, int device_count, model_args p)))"
  using assms by (auto simp: train_from_folder_def Let_def)

theorem training_dispatch_witness:
  "train_from_folder (params [''multi_gpus'' \<mapsto> PBool True]) 2 =
     Spawn 2 2 (model_args (params [''multi_gpus'' \<mapsto> PBool True])) \<and>
   run_training_calls (train_from_folder (params [''multi_gpus'' \<mapsto> PBool True]) 2) =
     [(0, 2, model_args (params [''multi_gpus'' \<mapsto> PBool True])),
      (1, 2, model_args (params [''multi_gpus'' \<mapsto> PBool True]))] \<and>
   train_from_folder (params [''multi_gpus'' \<mapsto> PBool True]) 1 =
     TrainHere 0 1 (model_args (params [''multi_gpus'' \<mapsto> PBool True])) \<and>
   train_from_folder (params Map.empty) 4 = TrainHere 0 1 (model_args (params Map.empty))"
proof -
  let ?p = "params [''multi_gpus'' \<mapsto> PBool True]"
  have a: "\<not> truthy (?p ''generate'')" and b: "\<not> truthy (?p ''generate_interpolation'')"
    and c: "truthy (?p ''multi_gpus'')"
    by (simp_all add: params_def defaults_def)
  have a': "\<not> truthy (params Map.empty ''generate'')"
    and b': "\<not> truthy (params Map.empty ''generate_interpolation'')"
    and c': "\<not> truthy (params Map.empty ''multi_gpus'')"
    by (simp_all add: params_def defaults_def)
  have u: "[0..<2] = [0, Suc 0]"
    by (simp add: upt_rec)
  have s2: "train_from_folder ?p 2 = Spawn 2 (int 2) (model_args ?p)"
    using a b c training_dispatch [of ?p 2] by fastforce
  have s1: "train_from_folder ?p 1 = TrainHere 0 1 (model_args ?p)"
    using a b training_dispatch [of ?p 1] by blast
  have s4: "train_from_folder (params Map.empty) 4 = TrainHere 0 1 (model_args (params Map.empty))"
    using a' b' c' training_dispatch [of "params Map.empty" 4] by fastforce
  show ?thesis
    using s2 s1 s4 by (simp add: u)
qed

end
